theory Spec2Isabelle
  imports Main "HOL-Library.Sublist" "HOL-Library.AList"
begin

section \<open>Python values used by \<open>orchestrator/api/helpers.py\<close>\<close>

text \<open>
  A Python \<open>str\<close> is a \<^typ>\<open>string\<close>: one \<^typ>\<open>char\<close> per code point, for the code
  points below 256 (ASCII and Latin-1). Exceptions are values of \<open>pyerr\<close>; a function
  that can raise returns \<open>pyerr + 'a\<close>, with \<open>Inl\<close> the exception.
\<close>

datatype pyerr =
    TypeError
  | ValueError
  | IndexError
  | KeyError string
  | UnboundLocalError
  | HTTPError nat string
  | BadRef

text \<open>
  \<open>HTTPError\<close> is what \<open>raise_status\<close> raises (status code and detail). \<open>BadRef\<close> has no
  Python counterpart: it is the result of following a reference that is not in the store,
  which no Python value can hold.
\<close>

subsection \<open>\<open>str.split\<close>, \<open>str.join\<close>, \<open>str.isdigit\<close>, \<open>int\<close>\<close>

function split_from :: "string \<Rightarrow> string \<Rightarrow> string \<Rightarrow> string list" where
  "split_from sep acc [] = [acc]"
| "split_from sep acc (c # cs) =
     (if sep \<noteq> [] \<and> prefix sep (c # cs)
      then acc # split_from sep [] (drop (length sep) (c # cs))
      else split_from sep (acc @ [c]) cs)"
  by pat_completeness auto
termination
  by (relation "measure (\<lambda>(sep, acc, s). length s)") auto

definition py_split :: "string \<Rightarrow> string \<Rightarrow> pyerr + string list" where
  "py_split s sep = (if sep = [] then Inl ValueError else Inr (split_from sep [] s))"

fun py_join :: "string \<Rightarrow> string list \<Rightarrow> string" where
  "py_join sep [] = []"
| "py_join sep [x] = x"
| "py_join sep (x # y # ys) = x @ sep @ py_join sep (y # ys)"

definition isdigit_char :: "char \<Rightarrow> bool" where
  "isdigit_char c = (c \<in> set ''0123456789'' \<or> c \<in> set [CHR 0xB2, CHR 0xB3, CHR 0xB9])"

definition isdigit :: "string \<Rightarrow> bool" where
  "isdigit s = (s \<noteq> [] \<and> list_all isdigit_char s)"

text \<open>
  \<open>int(s, base)\<close> on a string, for the bases 10 and 16: surrounding white space, a sign,
  for base 16 a prefix \<open>0x\<close> with one optional underscore after it, then digits with
  single underscores between them. \<open>None\<close> where Python raises \<open>ValueError\<close>. The
  limit that recent Python versions put on the number of decimal digits is not modelled.
\<close>

definition digit_val :: "char \<Rightarrow> nat option" where
  "digit_val c = map_of (zip ''0123456789abcdef'' [0, 1, 2, 3, 4, 5, 6, 7, 8, 9, 10, 11, 12, 13, 14, 15]
                       @ zip ''ABCDEF'' [10, 11, 12, 13, 14, 15]) c"

definition is_digit_of :: "nat \<Rightarrow> char \<Rightarrow> bool" where
  "is_digit_of base c = (case digit_val c of None \<Rightarrow> False | Some d \<Rightarrow> d < base)"

definition int_space :: "char \<Rightarrow> bool" where
  "int_space c = (c \<in> set [CHR 0x09, CHR 0x0A, CHR 0x0B, CHR 0x0C, CHR 0x0D, CHR 0x20, CHR 0x85, CHR 0xA0])"

fun no_double_underscore :: "string \<Rightarrow> bool" where
  "no_double_underscore (a # b # cs) =
     (\<not> (a = CHR ''_'' \<and> b = CHR ''_'') \<and> no_double_underscore (b # cs))"
| "no_double_underscore cs = True"

definition digits_value :: "nat \<Rightarrow> string \<Rightarrow> int" where
  "digits_value base ds =
     foldl (\<lambda>acc c. case digit_val c of None \<Rightarrow> acc | Some d \<Rightarrow> acc * int base + int d) 0 ds"

definition strip_prefix16 :: "nat \<Rightarrow> string \<Rightarrow> string" where
  "strip_prefix16 base s =
     (if base = 16 \<and> (prefix ''0x'' s \<or> prefix ''0X'' s)
      then (let r = drop 2 s in if prefix ''_'' r then drop 1 r else r)
      else s)"

definition py_int :: "nat \<Rightarrow> string \<Rightarrow> int option" where
  "py_int base s =
     (let s1 = dropWhile int_space s;
          neg = prefix ''-'' s1;
          s2 = (if prefix ''-'' s1 \<or> prefix ''+'' s1 then drop 1 s1 else s1);
          s3 = strip_prefix16 base s2;
          body = takeWhile (\<lambda>c. is_digit_of base c \<or> c = CHR ''_'') s3;
          rest = dropWhile (\<lambda>c. is_digit_of base c \<or> c = CHR ''_'') s3
      in if body = [] \<or> hd body = CHR ''_'' \<or> last body = CHR ''_''
            \<or> \<not> no_double_underscore body \<or> \<not> list_all int_space rest
         then None
         else Some ((if neg then - 1 else 1) * digits_value base body))"

subsection \<open>Decimal rendering of integers (\<open>str(i)\<close>, and \<open>{i}\<close> in an f-string)\<close>

definition digit_char :: "nat \<Rightarrow> char" where
  "digit_char d = ''0123456789'' ! (d mod 10)"

function str_nat :: "nat \<Rightarrow> string" where
  "str_nat n = (if n < 10 then [digit_char n] else str_nat (n div 10) @ [digit_char n])"
  by pat_completeness auto
termination
  by (relation "measure id") auto

declare str_nat.simps [simp del]

definition str_int :: "int \<Rightarrow> string" where
  "str_int i = (if i < 0 then CHR ''-'' # str_nat (nat (- i)) else str_nat (nat i))"

subsection \<open>\<open>str.endswith\<close>, \<open>str.lower\<close>, \<open>str.upper\<close>, \<open>str.replace\<close>, \<open>str.strip\<close>\<close>

definition endswith :: "string \<Rightarrow> string \<Rightarrow> bool" where
  "endswith s suf = (length suf \<le> length s \<and> drop (length s - length suf) s = suf)"

text \<open>
  Case mapping for the code points below 256: the ASCII letters and the Latin-1 letters.
  \<open>upper\<close> maps the sharp s (0xDF) to \<open>SS\<close>; the upper-case forms of 0xB5 and 0xFF
  lie beyond code point 255, so the model keeps these two characters (neither form is
  an ASCII letter).
\<close>

definition upper_letters :: string where
  "upper_letters = ''ABCDEFGHIJKLMNOPQRSTUVWXYZ''
     @ [CHR 0xC0, CHR 0xC1, CHR 0xC2, CHR 0xC3, CHR 0xC4, CHR 0xC5, CHR 0xC6, CHR 0xC7,
        CHR 0xC8, CHR 0xC9, CHR 0xCA, CHR 0xCB, CHR 0xCC, CHR 0xCD, CHR 0xCE, CHR 0xCF,
        CHR 0xD0, CHR 0xD1, CHR 0xD2, CHR 0xD3, CHR 0xD4, CHR 0xD5, CHR 0xD6,
        CHR 0xD8, CHR 0xD9, CHR 0xDA, CHR 0xDB, CHR 0xDC, CHR 0xDD, CHR 0xDE]"

definition lower_letters :: string where
  "lower_letters = ''abcdefghijklmnopqrstuvwxyz''
     @ [CHR 0xE0, CHR 0xE1, CHR 0xE2, CHR 0xE3, CHR 0xE4, CHR 0xE5, CHR 0xE6, CHR 0xE7,
        CHR 0xE8, CHR 0xE9, CHR 0xEA, CHR 0xEB, CHR 0xEC, CHR 0xED, CHR 0xEE, CHR 0xEF,
        CHR 0xF0, CHR 0xF1, CHR 0xF2, CHR 0xF3, CHR 0xF4, CHR 0xF5, CHR 0xF6,
        CHR 0xF8, CHR 0xF9, CHR 0xFA, CHR 0xFB, CHR 0xFC, CHR 0xFD, CHR 0xFE]"

definition lower_char :: "char \<Rightarrow> char" where
  "lower_char c = (case map_of (zip upper_letters lower_letters) c of None \<Rightarrow> c | Some d \<Rightarrow> d)"

definition py_lower :: "string \<Rightarrow> string" where
  "py_lower s = map lower_char s"

definition upper_char :: "char \<Rightarrow> string" where
  "upper_char c =
     (if c = CHR 0xDF then ''SS''
      else (case map_of (zip lower_letters upper_letters) c of None \<Rightarrow> [c] | Some d \<Rightarrow> [d]))"

definition py_upper :: "string \<Rightarrow> string" where
  "py_upper s = concat (map upper_char s)"

definition py_replace :: "string \<Rightarrow> string \<Rightarrow> string \<Rightarrow> string" where
  "py_replace s old new = py_join new (split_from old [] s)"

definition py_strip :: "string \<Rightarrow> string \<Rightarrow> string" where
  "py_strip s chars =
     rev (dropWhile (\<lambda>c. c \<in> set chars) (rev (dropWhile (\<lambda>c. c \<in> set chars) s)))"

subsection \<open>\<open>uuid.UUID(hex)\<close>\<close>

text \<open>
  The constructor of the standard library's \<open>UUID\<close> for a string: it removes \<open>urn:\<close>
  and \<open>uuid:\<close>, strips braces, removes dashes, requires 32 characters and reads them with
  \<open>int(hex, 16)\<close>. A UUID is represented by its 128-bit integer, which is what \<open>==\<close>
  compares.
\<close>

type_synonym uuid = int

definition UUID :: "string \<Rightarrow> pyerr + uuid" where
  "UUID hex =
     (let hex1 = py_replace (py_replace hex ''urn:'' []) ''uuid:'' [];
          hex2 = py_replace (py_strip hex1 ''{}'') ''-'' []
      in if length hex2 \<noteq> 32 then Inl ValueError
         else (case py_int 16 hex2 of
                 None \<Rightarrow> Inl ValueError
               | Some i \<Rightarrow> if 0 \<le> i \<and> i < 2 ^ 128 then Inr i else Inl ValueError))"

section \<open>The path accessor: \<open>update_in\<close> and \<open>get_in\<close>\<close>

text \<open>
  \<open>update_in\<close> mutates the container it is given, and what it mutates depends on which
  objects are shared and which are copies. So dicts and lists live in a store, a list of
  objects addressed by position, and a value refers to them by address. A dict keeps
  its entries in insertion order; its keys are values (\<open>dict(...)\<close> of a list of pairs
  can produce keys that are not strings).
\<close>

type_synonym addr = nat

datatype pyval = PNone | PInt int | PStr string | PRef addr

datatype pyobj = ODict "(pyval \<times> pyval) list" | OList "pyval list"

type_synonym heap = "pyobj list"

definition is_list :: "heap \<Rightarrow> pyval \<Rightarrow> bool" where
  "is_list h v = (case v of
       PRef r \<Rightarrow> r < length h \<and> (case h ! r of OList xs \<Rightarrow> True | ODict kvs \<Rightarrow> False)
     | _ \<Rightarrow> False)"

text \<open>\<open>lst[i]\<close> for an integer \<open>i\<close>: a negative index counts from the end.\<close>

definition list_getitem :: "pyval list \<Rightarrow> int \<Rightarrow> pyerr + pyval" where
  "list_getitem xs i =
     (if 0 \<le> i \<and> i < int (length xs) then Inr (xs ! nat i)
      else if i < 0 \<and> - i \<le> int (length xs) then Inr (xs ! nat (int (length xs) + i))
      else Inl IndexError)"

text \<open>\<open>dct[int(x)]\<close>, reached only when \<open>dct\<close> is a list.\<close>

definition index_by_segment :: "heap \<Rightarrow> pyval \<Rightarrow> string \<Rightarrow> pyerr + pyval" where
  "index_by_segment h dct x =
     (case py_int 10 x of
        None \<Rightarrow> Inl ValueError
      | Some i \<Rightarrow>
          (case dct of
             PRef r \<Rightarrow>
               (if r < length h
                then (case h ! r of OList xs \<Rightarrow> list_getitem xs i | ODict kvs \<Rightarrow> Inl TypeError)
                else Inl BadRef)
           | _ \<Rightarrow> Inl TypeError))"

text \<open>
  \<open>dict(v)\<close>: a new dict with the entries of a dict, or built from a sequence of
  two-element sequences. An element that cannot be iterated is a \<open>TypeError\<close>, one whose
  length is not 2 a \<open>ValueError\<close>, a list or dict as key a \<open>TypeError\<close> (unhashable).
  Iterating a string yields its characters, iterating a dict its keys.
\<close>

definition hashable :: "pyval \<Rightarrow> bool" where
  "hashable k = (case k of PRef r \<Rightarrow> False | _ \<Rightarrow> True)"

definition pair_of :: "heap \<Rightarrow> pyval \<Rightarrow> pyerr + (pyval \<times> pyval)" where
  "pair_of h e =
     (case e of
        PNone \<Rightarrow> Inl TypeError
      | PInt i \<Rightarrow> Inl TypeError
      | PStr s \<Rightarrow> (case s of [a, b] \<Rightarrow> Inr (PStr [a], PStr [b]) | _ \<Rightarrow> Inl ValueError)
      | PRef r \<Rightarrow>
          (if r < length h
           then (case h ! r of
                   OList xs \<Rightarrow> (case xs of [k, v] \<Rightarrow> Inr (k, v) | _ \<Rightarrow> Inl ValueError)
                 | ODict kvs \<Rightarrow> (case map fst kvs of [k, v] \<Rightarrow> Inr (k, v) | _ \<Rightarrow> Inl ValueError))
           else Inl BadRef))"

fun dict_from_pairs ::
  "heap \<Rightarrow> pyval list \<Rightarrow> (pyval \<times> pyval) list \<Rightarrow> pyerr + (pyval \<times> pyval) list" where
  "dict_from_pairs h [] acc = Inr acc"
| "dict_from_pairs h (e # es) acc =
     (case pair_of h e of
        Inl err \<Rightarrow> Inl err
      | Inr (k, v) \<Rightarrow>
          if hashable k then dict_from_pairs h es (AList.update k v acc) else Inl TypeError)"

definition py_dict :: "heap \<Rightarrow> pyval \<Rightarrow> pyerr + (pyval \<times> pyval) list" where
  "py_dict h v =
     (case v of
        PNone \<Rightarrow> Inl TypeError
      | PInt i \<Rightarrow> Inl TypeError
      | PStr s \<Rightarrow> (if s = [] then Inr [] else Inl ValueError)
      | PRef r \<Rightarrow>
          (if r < length h
           then (case h ! r of ODict kvs \<Rightarrow> Inr kvs | OList xs \<Rightarrow> dict_from_pairs h xs [])
           else Inl BadRef))"

text \<open>\<open>d.get(x)\<close> on the entries of a dict, for a string \<open>x\<close>: \<open>None\<close> when absent.\<close>

definition dict_get :: "(pyval \<times> pyval) list \<Rightarrow> string \<Rightarrow> pyval" where
  "dict_get d x = (case map_of d (PStr x) of None \<Rightarrow> PNone | Some v \<Rightarrow> v)"

text \<open>
  \<open>prev[x]\<close> with \<open>x\<close> a string: a key lookup on a dict (\<open>KeyError\<close> when absent), a
  \<open>TypeError\<close> on a list (list indices must be integers) and on every other value.
\<close>

definition getitem_str :: "heap \<Rightarrow> pyval \<Rightarrow> string \<Rightarrow> pyerr + pyval" where
  "getitem_str h p x =
     (case p of
        PRef r \<Rightarrow>
          (if r < length h
           then (case h ! r of
                   ODict kvs \<Rightarrow> (case map_of kvs (PStr x) of None \<Rightarrow> Inl (KeyError x) | Some v \<Rightarrow> Inr v)
                 | OList xs \<Rightarrow> Inl TypeError)
           else Inl BadRef)
      | _ \<Rightarrow> Inl TypeError)"

text \<open>\<open>prev[x] = value\<close> with \<open>x\<close> a string: stores into the dict object itself.\<close>

definition setitem_str :: "heap \<Rightarrow> pyval \<Rightarrow> string \<Rightarrow> pyval \<Rightarrow> pyerr + heap" where
  "setitem_str h p x v =
     (case p of
        PRef r \<Rightarrow>
          (if r < length h
           then (case h ! r of
                   ODict kvs \<Rightarrow> Inr (h[r := ODict (AList.update (PStr x) v kvs)])
                 | OList xs \<Rightarrow> Inl TypeError)
           else Inl BadRef)
      | _ \<Rightarrow> Inl TypeError)"

text \<open>
  The loop of \<open>get_in\<close>. \<open>prev\<close> is unbound before the first iteration (\<open>None\<close> here).
  \<^verbatim>\<open>
    for x in path.split(sep):
        if x.isdigit() and isinstance(dct, list):
            prev, dct = dct, dct[int(x)]
        else:
            prev, dct = dct, dict(dct).get(x)
    return prev[x]
  \<close>
\<close>

fun get_in_loop :: "heap \<Rightarrow> pyval option \<Rightarrow> pyval \<Rightarrow> string list \<Rightarrow> pyerr + (pyval option \<times> pyval)" where
  "get_in_loop h prev dct [] = Inr (prev, dct)"
| "get_in_loop h prev dct (x # xs) =
     (if isdigit x \<and> is_list h dct
      then (case index_by_segment h dct x of
              Inl e \<Rightarrow> Inl e
            | Inr v \<Rightarrow> get_in_loop h (Some dct) v xs)
      else (case py_dict h dct of
              Inl e \<Rightarrow> Inl e
            | Inr d \<Rightarrow> get_in_loop h (Some dct) (dict_get d x) xs))"

definition get_in :: "heap \<Rightarrow> pyval \<Rightarrow> string \<Rightarrow> string \<Rightarrow> pyerr + pyval" where
  "get_in h dct path sep =
     (case py_split path sep of
        Inl e \<Rightarrow> Inl e
      | Inr segs \<Rightarrow>
          (case get_in_loop h None dct segs of
             Inl e \<Rightarrow> Inl e
           | Inr (prev, d) \<Rightarrow>
               (case prev of
                  None \<Rightarrow> Inl UnboundLocalError
                | Some p \<Rightarrow> getitem_str h p (last segs))))"

text \<open>
  The loop of \<open>update_in\<close>. In the \<open>else\<close> branch \<open>dict(dct)\<close> allocates a new dict with
  the entries of \<open>dct\<close>, \<open>{}\<close> allocates an empty dict, and \<open>setdefault\<close> stores that
  empty dict into the new dict when the key is absent; the store records both objects.
  \<^verbatim>\<open>
    for x in path.split(sep):
        if x.isdigit() and isinstance(dct, list):
            prev = dct
            dct = dct[int(x)]
        else:
            prev = dct
            dct = dict(dct).setdefault(x, {})
    prev[x] = value
  \<close>
\<close>

fun update_in_loop ::
  "heap \<Rightarrow> pyval option \<Rightarrow> pyval \<Rightarrow> string list \<Rightarrow> pyerr + (heap \<times> pyval option \<times> pyval)" where
  "update_in_loop h prev dct [] = Inr (h, prev, dct)"
| "update_in_loop h prev dct (x # xs) =
     (if isdigit x \<and> is_list h dct
      then (case index_by_segment h dct x of
              Inl e \<Rightarrow> Inl e
            | Inr v \<Rightarrow> update_in_loop h (Some dct) v xs)
      else (case py_dict h dct of
              Inl e \<Rightarrow> Inl e
            | Inr d \<Rightarrow>
                (case map_of d (PStr x) of
                   Some v \<Rightarrow> update_in_loop (h @ [ODict d, ODict []]) (Some dct) v xs
                 | None \<Rightarrow>
                     update_in_loop
                       (h @ [ODict (d @ [(PStr x, PRef (Suc (length h)))]), ODict []])
                       (Some dct) (PRef (Suc (length h))) xs)))"

definition update_in :: "heap \<Rightarrow> pyval \<Rightarrow> string \<Rightarrow> pyval \<Rightarrow> string \<Rightarrow> pyerr + heap" where
  "update_in h dct path v sep =
     (case py_split path sep of
        Inl e \<Rightarrow> Inl e
      | Inr segs \<Rightarrow>
          (case update_in_loop h None dct segs of
             Inl e \<Rightarrow> Inl e
           | Inr (h', prev, d) \<Rightarrow>
               (case prev of
                  None \<Rightarrow> Inl UnboundLocalError
                | Some p \<Rightarrow> setitem_str h' p (last segs) v)))"

section \<open>The path enumerator: \<open>product_block_paths\<close>\<close>

text \<open>
  \<open>product_block_paths\<close> only reads its argument, and the nesting it walks is finite, so
  the argument is a tree: a leaf, a dict (its entries in iteration order) or a list.
  A \<open>SubscriptionModel\<close> is passed as its \<open>.dict()\<close>.
  \<^verbatim>\<open>
    def get_dict_items(d: dict) -> Generator:
        for k, v in d.items():
            if isinstance(v, dict):
                for k1, v1 in get_dict_items(v):
                    yield (f"{k}.{k1}", v1)
                yield (k, v)
            if isinstance(v, list):
                for index, list_item in enumerate(v):
                    if isinstance(list_item, dict):
                        for list_item_key, list_item_value in get_dict_items(list_item):
                            yield (f"{k}.{index}.{list_item_key}", list_item_value)
                        yield (f"{k}.{index}", list_item)
    return [path for path, value in get_dict_items(_subscription)]
  \<close>
\<close>

datatype tree =
    TNone
  | TInt int
  | TStr string
  | TDict "(string \<times> tree) list"
  | TList "tree list"

fun get_dict_items :: "(string \<times> tree) list \<Rightarrow> (string \<times> tree) list"
  and get_list_items :: "string \<Rightarrow> nat \<Rightarrow> tree list \<Rightarrow> (string \<times> tree) list" where
  "get_dict_items [] = []"
| "get_dict_items ((k, TDict d) # rest) =
     map (\<lambda>(k1, v1). (k @ ''.'' @ k1, v1)) (get_dict_items d) @ [(k, TDict d)]
     @ get_dict_items rest"
| "get_dict_items ((k, TList xs) # rest) = get_list_items k 0 xs @ get_dict_items rest"
| "get_dict_items ((k, v) # rest) = get_dict_items rest"
| "get_list_items k index [] = []"
| "get_list_items k index (TDict d # items) =
     map (\<lambda>(list_item_key, list_item_value).
            (k @ ''.'' @ str_nat index @ ''.'' @ list_item_key, list_item_value))
         (get_dict_items d)
     @ [(k @ ''.'' @ str_nat index, TDict d)]
     @ get_list_items k (Suc index) items"
| "get_list_items k index (list_item # items) = get_list_items k (Suc index) items"

definition product_block_paths :: "(string \<times> tree) list \<Rightarrow> string list" where
  "product_block_paths subscription = map fst (get_dict_items subscription)"

definition is_dict :: "tree \<Rightarrow> bool" where
  "is_dict v = (case v of TDict d \<Rightarrow> True | _ \<Rightarrow> False)"

section \<open>The text-query sanitizer: \<open>_process_text_query\<close>\<close>

text \<open>
  \<^verbatim>\<open>
    def _quote_if_kv_pair(token: str) -> str:
        return f'"{token}"' if ":" in token else token

    def _process_text_query(q: str) -> str:
        quote = '"'
        if q.count(quote) % 2 == 1:
            q += quote  # Add missing closing quote
        lex = shlex(q)
        lex.whitespace_split = True
        lex.quotes = '"'
        try:
            return " ".join([_quote_if_kv_pair(token) for token in lex])
        except ValueError:
            logger.debug("Error parsing text query.")
            return q
  \<close>
  The tokenizer is the standard library's \<open>shlex\<close> in its default, non-POSIX mode with
  \<open>whitespace_split\<close> set and \<open>"\<close> the only quote character. \<open>read_token\<close> follows
  \<open>shlex.read_token\<close> branch by branch for these settings: the lexer's \<open>state\<close> is
  \<open>None\<close> (past the end of input), \<open>' '\<close>, \<open>'a'\<close> or the quote character; an unclosed
  quote raises \<open>ValueError\<close>; a \<open>#\<close> outside quotes discards the rest of the line.
  It returns the token, the next state and the rest of the input.
\<close>

definition dquote :: char where
  "dquote = CHR 0x22"

definition quote_if_kv_pair :: "string \<Rightarrow> string" where
  "quote_if_kv_pair token = (if CHR '':'' \<in> set token then [dquote] @ token @ [dquote] else token)"

datatype lexstate = AtEOF | InSpace | InWord | InQuote

definition wordchars :: string where
  "wordchars = ''abcdfeghijklmnopqrstuvwxyzABCDEFGHIJKLMNOPQRSTUVWXYZ0123456789_''"

definition whitespace :: string where
  "whitespace = [CHR 0x20, CHR 0x09, CHR 0x0D, CHR 0x0A]"

definition commenters :: string where
  "commenters = ''#''"

definition quotes :: string where
  "quotes = [dquote]"

definition readline :: "string \<Rightarrow> string" where
  "readline s = drop 1 (dropWhile (\<lambda>c. c \<noteq> CHR 0x0A) s)"

lemma length_readline: "length (readline s) \<le> length s"
  unfolding readline_def using length_dropWhile_le [of "\<lambda>c. c \<noteq> CHR 0x0A" s] by simp

function read_token :: "lexstate \<Rightarrow> string \<Rightarrow> string \<Rightarrow> pyerr + (string \<times> lexstate \<times> string)" where
  "read_token AtEOF token inp = Inr ([], AtEOF, drop 1 inp)"
| "read_token InSpace token [] = Inr (token, AtEOF, [])"
| "read_token InSpace token (nextchar # inp) =
     (if nextchar \<in> set whitespace
      then (if token \<noteq> [] then Inr (token, InSpace, inp) else read_token InSpace token inp)
      else if nextchar \<in> set commenters then read_token InSpace token (readline inp)
      else if nextchar \<in> set wordchars then read_token InWord [nextchar] inp
      else if nextchar \<in> set quotes then read_token InQuote [nextchar] inp
      else read_token InWord [nextchar] inp)"
| "read_token InQuote token [] = Inl ValueError"
| "read_token InQuote token (nextchar # inp) =
     (if nextchar = dquote then Inr (token @ [nextchar], InSpace, inp)
      else read_token InQuote (token @ [nextchar]) inp)"
| "read_token InWord token [] = Inr (token, AtEOF, [])"
| "read_token InWord token (nextchar # inp) =
     (if nextchar \<in> set whitespace
      then (if token \<noteq> [] then Inr (token, InSpace, inp) else read_token InSpace token inp)
      else if nextchar \<in> set commenters then read_token InWord token (readline inp)
      else read_token InWord (token @ [nextchar]) inp)"
  by pat_completeness auto
termination
  by (relation "measure (\<lambda>(st, token, inp). length inp)")
     (auto simp: le_imp_less_Suc length_readline)

lemma read_token_consumes:
  "read_token st token inp = Inr (t, st', inp') \<Longrightarrow> st \<noteq> AtEOF \<Longrightarrow>
     length inp' < length inp \<or> (st' = AtEOF \<and> length inp' \<le> length inp)"
proof (induction st token inp rule: read_token.induct)
  case (3 token nextchar inp)
  then show ?case
    using length_readline [of inp] by (auto split: if_splits)
next
  case (7 token nextchar inp)
  then show ?case
    using length_readline [of inp] by (auto split: if_splits)
qed (auto split: if_splits)

text \<open>
  Iterating the lexer: tokens are read until \<open>read_token\<close> returns the empty token
  (\<open>lex.eof\<close>). Every call consumes input or reaches the end, so the iteration ends.
\<close>

function shlex_tokens :: "lexstate \<Rightarrow> string \<Rightarrow> pyerr + string list" where
  "shlex_tokens st inp =
     (case read_token st [] inp of
        Inl e \<Rightarrow> Inl e
      | Inr (token, st', inp') \<Rightarrow>
          (if token = [] then Inr []
           else (case shlex_tokens st' inp' of
                   Inl e \<Rightarrow> Inl e
                 | Inr tokens \<Rightarrow> Inr (token # tokens))))"
  by pat_completeness auto
termination
proof (relation "measure (\<lambda>(st, inp). 2 * length inp + (if st = AtEOF then 0 else 1))", goal_cases)
  case 1
  then show ?case by simp
next
  case (2 st inp x2 token y st' inp')
  then have r: "read_token st [] inp = Inr (token, st', inp')" and t: "token \<noteq> []"
    by simp_all
  from r t have "st \<noteq> AtEOF" by (cases st) auto
  with read_token_consumes [OF r] show ?case by auto
qed

declare shlex_tokens.simps [simp del]

definition process_text_query :: "string \<Rightarrow> pyerr + string" where
  "process_text_query q =
     (let q1 = (if count_list q dquote mod 2 = 1 then q @ [dquote] else q)
      in case shlex_tokens InSpace q1 of
           Inl e \<Rightarrow> (if e = ValueError then Inr q1 else Inl e)
         | Inr tokens \<Rightarrow> Inr (py_join '' '' (map quote_if_kv_pair tokens)))"

section \<open>The query builder: \<open>_query_with_filters\<close>\<close>

text \<open>
  The SQLAlchemy \<open>Query\<close> is modelled by what the function adds to it: the filter
  criteria (a conjunction), the joins, the \<open>ORDER BY\<close> terms in the order of the calls,
  and the slice. A column is a table and an attribute name; \<open>func.lower(c)\<close> and
  \<open>cast(c, String)\<close> are expressions over a column.
\<close>

datatype table = SubscriptionTable | ProductTable | SubscriptionSearchView

datatype column = Column table string

datatype expr = Plain column | Lower column | CastString column

datatype comparison = Op_gt | Op_ge | Op_le | Op_lt | Op_ne

text \<open>
  The \<open>Entry_\<close> terms stand for what the code builds from an entry of
  \<open>SubscriptionTable.__dict__\<close> that is not a mapped column, named by its key.
\<close>

datatype predicate =
    Col_compare comparison column string
  | Col_is column bool
  | Expr_in expr "string list"
  | Col_eq_uuid column uuid
  | Ts_match string column
  | Expr_ilike expr string
  | Entry_compare comparison string string
  | Entry_ilike string string

datatype order_term = Asc column | Desc column | Entry_asc string | Entry_desc string

record query =
  criteria :: "predicate list"
  joined :: "table list"
  ordering :: "order_term list"
  sliced :: "(int \<times> int) option"

text \<open>\<open>query.filter\<close>, \<open>query.join\<close>, \<open>query.order_by\<close> and \<open>query.slice\<close>.\<close>

definition q_filter :: "query \<Rightarrow> predicate \<Rightarrow> query" where
  "q_filter q p = q\<lparr>criteria := criteria q @ [p]\<rparr>"

definition q_join :: "query \<Rightarrow> table \<Rightarrow> query" where
  "q_join q t = q\<lparr>joined := joined q @ [t]\<rparr>"

definition q_order_by :: "query \<Rightarrow> order_term \<Rightarrow> query" where
  "q_order_by q t = q\<lparr>ordering := ordering q @ [t]\<rparr>"

definition q_slice :: "query \<Rightarrow> int \<Rightarrow> int \<Rightarrow> query" where
  "q_slice q start stop = q\<lparr>sliced := Some (start, stop)\<rparr>"

text \<open>
  The data store executes a query: \<open>query.count()\<close> and \<open>query.all()\<close>. It is the
  collaborator's, so it is a parameter, and either call may fail. The response carries
  its headers.
\<close>

record 'r store =
  count_rows :: "query \<Rightarrow> pyerr + nat"
  all_rows :: "query \<Rightarrow> pyerr + 'r list"

record response =
  headers :: "string \<rightharpoonup> string"

text \<open>
  Modelled from the spec: \<open>raise_status\<close> of \<open>orchestrator.api.error_handling\<close>, which is
  not among the sources. The spec has the operation fail with a client error
  (400-equivalent) carrying the message, so \<open>raise_status\<close> raises and does not return.
\<close>

definition raise_status :: "nat \<Rightarrow> string \<Rightarrow> pyerr + 'a" where
  "raise_status status detail = Inl (HTTPError status detail)"

text \<open>
  \<open>SubscriptionTable.__dict__\<close>. The table's declaration is not among the sources, so the
  class is a parameter. Its \<open>__dict__\<close> maps a name to a mapped column or to some other
  entry: the \<open>__dict__\<close> of a class always holds entries that are not columns
  (\<open>__module__\<close>, \<open>__doc__\<close>, methods, relationships). A name that is not a key is a
  \<open>KeyError\<close>. What the code does with an entry that is not a column (compare it with
  the value, cast it and match it, order by it) depends on the object, which may raise
  (\<open>None > "1"\<close> is a \<open>TypeError\<close>) or not; \<open>other_entry_raises\<close> is that part of the
  parameter, \<open>None\<close> where nothing is raised. \<open>ProductTable\<close> is taken to have the columns
  \<open>name\<close> and \<open>tag\<close>, and \<open>SubscriptionTable\<close> the columns \<open>insync\<close>, \<open>status\<close> and
  \<open>customer_id\<close> that the code reads as attributes.
\<close>

datatype attribute = MappedColumn | OtherEntry

datatype entry_use = Compared comparison string | Cast_ilike string | Ordered bool

record subscription_table =
  class_dict :: "(string \<times> attribute) list"
  other_entry_raises :: "string \<Rightarrow> entry_use \<Rightarrow> pyerr option"

text \<open>\<open>more_itertools.chunked(iterable, n)\<close>: lists of length \<open>n\<close>, the last one shorter.\<close>

function chunked :: "'a list \<Rightarrow> nat \<Rightarrow> 'a list list" where
  "chunked xs n = (if n = 0 \<or> xs = [] then [] else take n xs # chunked (drop n xs) n)"
  by pat_completeness auto
termination
  by (relation "measure (\<lambda>(xs, n). length xs)") auto

declare chunked.simps [simp del]

text \<open>
  One filter pair (lines 65 to 121). The message of the \<open>organisation\<close> rule is a plain
  string, not an f-string: it ends in the literal text \<open>'{value}'\<close>. \<open>compare_rule\<close> is
  the shape shared by the five suffix rules.
  \<^verbatim>\<open>
    field = filter[0]
    value = filter[1]
    value_as_bool = value.lower() in ("yes", "y", "ye", "true", "1", "ja", "insync")
    if value is not None:
        if field.endswith("_gt"):
            query = query.filter(SubscriptionTable.__dict__[field[:-3]] > value)
        elif field.endswith("_gte"): ...
        elif field == "organisation":
            try:
                value_as_uuid = UUID(value)
            except (ValueError, AttributeError):
                msg = "Not a valid customer_id, must be a UUID: '{value}'"
                logger.debug(msg)
                raise_status(HTTPStatus.BAD_REQUEST, msg)
            query = query.filter(SubscriptionTable.customer_id == value_as_uuid)
        elif field == "tsv": ...
        elif field in SubscriptionTable.__dict__:
            query = query.filter(cast(SubscriptionTable.__dict__[field], String).ilike("%" + value + "%"))
  \<close>
\<close>

definition truthy :: "string list" where
  "truthy = [''yes'', ''y'', ''ye'', ''true'', ''1'', ''ja'', ''insync'']"

definition organisation_msg :: string where
  "organisation_msg =
     ''Not a valid customer_id, must be a UUID: '' @ [CHR 0x27] @ ''{value}'' @ [CHR 0x27]"

definition compare_rule ::
  "subscription_table \<Rightarrow> query \<Rightarrow> string \<Rightarrow> comparison \<Rightarrow> string \<Rightarrow> pyerr + query" where
  "compare_rule tbl query name op v =
     (case map_of (class_dict tbl) name of
        None \<Rightarrow> Inl (KeyError name)
      | Some MappedColumn \<Rightarrow>
          Inr (q_filter query (Col_compare op (Column SubscriptionTable name) v))
      | Some OtherEntry \<Rightarrow>
          (case other_entry_raises tbl name (Compared op v) of
             Some e \<Rightarrow> Inl e
           | None \<Rightarrow> Inr (q_filter query (Entry_compare op name v))))"

definition filter_pair :: "subscription_table \<Rightarrow> query \<Rightarrow> string \<Rightarrow> string \<Rightarrow> pyerr + query" where
  "filter_pair tbl query field v =
     (let value_as_bool = (py_lower v \<in> set truthy) in
      if endswith field ''_gt''
      then compare_rule tbl query (take (length field - 3) field) Op_gt v
      else if endswith field ''_gte''
      then compare_rule tbl query (take (length field - 4) field) Op_ge v
      else if endswith field ''_lte''
      then compare_rule tbl query (take (length field - 4) field) Op_le v
      else if endswith field ''_lt''
      then compare_rule tbl query (take (length field - 3) field) Op_lt v
      else if endswith field ''_ne''
      then compare_rule tbl query (take (length field - 3) field) Op_ne v
      else if field = ''insync''
      then Inr (q_filter query (Col_is (Column SubscriptionTable ''insync'') value_as_bool))
      else if field = ''tags''
      then Inr (q_filter query
             (Expr_in (Lower (Column ProductTable ''tag'')) (map py_lower (split_from ''-'' [] v))))
      else if field = ''tag''
      then Inr (q_filter query
             (Expr_in (Lower (Column ProductTable ''tag'')) (map py_lower (split_from ''-'' [] v))))
      else if field = ''product''
      then Inr (q_filter query
             (Expr_in (Lower (Column ProductTable ''name'')) (map py_lower (split_from ''-'' [] v))))
      else if field = ''status''
      then Inr (q_filter query
             (Expr_in (Plain (Column SubscriptionTable ''status'')) (map py_lower (split_from ''-'' [] v))))
      else if field = ''statuses''
      then Inr (q_filter query
             (Expr_in (Plain (Column SubscriptionTable ''status'')) (map py_lower (split_from ''-'' [] v))))
      else if field = ''organisation''
      then (case UUID v of
              Inl e \<Rightarrow> (if e = ValueError then raise_status 400 organisation_msg else Inl e)
            | Inr value_as_uuid \<Rightarrow>
                Inr (q_filter query (Col_eq_uuid (Column SubscriptionTable ''customer_id'') value_as_uuid)))
      else if field = ''tsv''
      then (case process_text_query v of
              Inl e \<Rightarrow> Inl e
            | Inr processed_text_query \<Rightarrow>
                Inr (q_filter (q_join query SubscriptionSearchView)
                       (Ts_match processed_text_query (Column SubscriptionSearchView ''tsv''))))
      else (case map_of (class_dict tbl) field of
              None \<Rightarrow> Inr query
            | Some MappedColumn \<Rightarrow>
                Inr (q_filter query
                  (Expr_ilike (CastString (Column SubscriptionTable field)) (''%'' @ v @ ''%'')))
            | Some OtherEntry \<Rightarrow>
                (case other_entry_raises tbl field (Cast_ilike (''%'' @ v @ ''%'')) of
                   Some e \<Rightarrow> Inl e
                 | None \<Rightarrow> Inr (q_filter query (Entry_ilike field (''%'' @ v @ ''%''))))))"

text \<open>
  \<^verbatim>\<open>
    if filters is not None:
        for filter in chunked(filters, 2):
            if filter and len(filter) == 2:
  \<close>
\<close>

fun filter_loop :: "subscription_table \<Rightarrow> query \<Rightarrow> string list list \<Rightarrow> pyerr + query" where
  "filter_loop tbl query [] = Inr query"
| "filter_loop tbl query (chunk # rest) =
     (if chunk \<noteq> [] \<and> length chunk = 2
      then (case filter_pair tbl query (chunk ! 0) (chunk ! 1) of
              Inl e \<Rightarrow> Inl e
            | Inr query' \<Rightarrow> filter_loop tbl query' rest)
      else filter_loop tbl query rest)"

definition apply_filters ::
  "subscription_table \<Rightarrow> query \<Rightarrow> string list option \<Rightarrow> pyerr + query" where
  "apply_filters tbl query filters =
     (case filters of
        None \<Rightarrow> Inr query
      | Some fs \<Rightarrow> filter_loop tbl query (chunked fs 2))"

text \<open>
  \<^verbatim>\<open>
    if sort is not None and len(sort) >= 2:
        for item in chunked(sort, 2):
            if item and len(item) == 2:
                if item[0] in ["product", "tag"]:
                    field = "name" if item[0] == "product" else "tag"
                    if item[1].upper() == "DESC":
                        query = query.order_by(expression.desc(ProductTable.__dict__[field]))
                    else:
                        query = query.order_by(expression.asc(ProductTable.__dict__[field]))
                else:
                    if item[1].upper() == "DESC":
                        query = query.order_by(expression.desc(SubscriptionTable.__dict__[item[0]]))
                    else:
                        query = query.order_by(expression.asc(SubscriptionTable.__dict__[item[0]]))
  \<close>
\<close>

definition order_by_entry ::
  "subscription_table \<Rightarrow> query \<Rightarrow> string \<Rightarrow> bool \<Rightarrow> pyerr + query" where
  "order_by_entry tbl query key descending =
     (case map_of (class_dict tbl) key of
        None \<Rightarrow> Inl (KeyError key)
      | Some MappedColumn \<Rightarrow>
          Inr (q_order_by query
                 (if descending then Desc (Column SubscriptionTable key)
                  else Asc (Column SubscriptionTable key)))
      | Some OtherEntry \<Rightarrow>
          (case other_entry_raises tbl key (Ordered descending) of
             Some e \<Rightarrow> Inl e
           | None \<Rightarrow>
               Inr (q_order_by query (if descending then Entry_desc key else Entry_asc key))))"

definition sort_pair :: "subscription_table \<Rightarrow> query \<Rightarrow> string \<Rightarrow> string \<Rightarrow> pyerr + query" where
  "sort_pair tbl query key direction =
     (if key \<in> set [''product'', ''tag'']
      then (let field = (if key = ''product'' then ''name'' else ''tag'') in
            if py_upper direction = ''DESC''
            then Inr (q_order_by query (Desc (Column ProductTable field)))
            else Inr (q_order_by query (Asc (Column ProductTable field))))
      else (if py_upper direction = ''DESC''
            then order_by_entry tbl query key True
            else order_by_entry tbl query key False))"

fun sort_loop :: "subscription_table \<Rightarrow> query \<Rightarrow> string list list \<Rightarrow> pyerr + query" where
  "sort_loop tbl query [] = Inr query"
| "sort_loop tbl query (item # rest) =
     (if item \<noteq> [] \<and> length item = 2
      then (case sort_pair tbl query (item ! 0) (item ! 1) of
              Inl e \<Rightarrow> Inl e
            | Inr query' \<Rightarrow> sort_loop tbl query' rest)
      else sort_loop tbl query rest)"

definition apply_sort :: "subscription_table \<Rightarrow> query \<Rightarrow> string list option \<Rightarrow> pyerr + query" where
  "apply_sort tbl query sort' =
     (case sort' of
        None \<Rightarrow> Inr query
      | Some s \<Rightarrow> if length s \<ge> 2 then sort_loop tbl query (chunked s 2) else Inr query)"

text \<open>
  The range is annotated \<open>List[int]\<close>, and the code applies \<open>int(...)\<close> to its elements; an
  element is an integer or a string still to be parsed. \<open>parse_range\<close> is the body of the
  \<open>try\<close>.
  \<^verbatim>\<open>
    if range is not None and len(range) == 2:
        try:
            range_start = int(range[0])
            range_end = int(range[1])
            if range_start >= range_end:
                raise ValueError("range start must be lower than end")
        except (ValueError, AssertionError):
            msg = "Invalid range parameters"
            logger.exception(msg)
            raise_status(HTTPStatus.BAD_REQUEST, msg)
        total = query.count()
        query = query.slice(range_start, range_end)

        response.headers["Content-Range"] = f"subscriptions {range_start}-{range_end}/{total}"

    return query.all()
  \<close>
\<close>

datatype range_item = RInt int | RStr string

definition int_of_item :: "range_item \<Rightarrow> pyerr + int" where
  "int_of_item x =
     (case x of
        RInt i \<Rightarrow> Inr i
      | RStr s \<Rightarrow> (case py_int 10 s of None \<Rightarrow> Inl ValueError | Some i \<Rightarrow> Inr i))"

definition parse_range :: "range_item list \<Rightarrow> pyerr + (int \<times> int)" where
  "parse_range r =
     (case int_of_item (r ! 0) of
        Inl e \<Rightarrow> Inl e
      | Inr range_start \<Rightarrow>
          (case int_of_item (r ! 1) of
             Inl e \<Rightarrow> Inl e
           | Inr range_end \<Rightarrow>
               if range_start \<ge> range_end then Inl ValueError
               else Inr (range_start, range_end)))"

definition content_range :: "int \<Rightarrow> int \<Rightarrow> nat \<Rightarrow> string" where
  "content_range range_start range_end total_count =
     ''subscriptions '' @ str_int range_start @ ''-'' @ str_int range_end @ ''/'' @ str_nat total_count"

definition apply_range ::
  "'r store \<Rightarrow> response \<Rightarrow> query \<Rightarrow> range_item list option \<Rightarrow> pyerr + (query \<times> response)" where
  "apply_range db resp query range' =
     (case range' of
        None \<Rightarrow> Inr (query, resp)
      | Some r \<Rightarrow>
          if length r = 2
          then (case parse_range r of
                  Inl e \<Rightarrow>
                    (if e = ValueError then raise_status 400 ''Invalid range parameters''
                     else Inl e)
                | Inr (range_start, range_end) \<Rightarrow>
                    (case count_rows db query of
                       Inl e \<Rightarrow> Inl e
                     | Inr total_count \<Rightarrow>
                         Inr (q_slice query range_start range_end,
                              resp\<lparr>headers := (headers resp)
                                (''Content-Range'' \<mapsto> content_range range_start range_end total_count)\<rparr>)))
          else Inr (query, resp))"

definition query_with_filters ::
  "'r store \<Rightarrow> subscription_table \<Rightarrow> response \<Rightarrow> query \<Rightarrow> range_item list option \<Rightarrow>
   string list option \<Rightarrow> string list option \<Rightarrow> pyerr + ('r list \<times> response)" where
  "query_with_filters db tbl resp query range' sort' filters =
     (case apply_filters tbl query filters of
        Inl e \<Rightarrow> Inl e
      | Inr q1 \<Rightarrow>
          (case apply_sort tbl q1 sort' of
             Inl e \<Rightarrow> Inl e
           | Inr q2 \<Rightarrow>
               (case apply_range db resp q2 range' of
                  Inl e \<Rightarrow> Inl e
                | Inr (q3, resp') \<Rightarrow>
                    (case all_rows db q3 of
                       Inl e \<Rightarrow> Inl e
                     | Inr rows \<Rightarrow> Inr (rows, resp')))))"

text \<open>
  Modelled from the spec: a data store for the examples, holding a fixed list of records
  that all match. It honours the slice as offset and limit (the collaborator contract of
  the spec: count, and offset/limit slicing), and counts what it would return.
\<close>

definition window :: "(int \<times> int) option \<Rightarrow> 'r list \<Rightarrow> 'r list" where
  "window w rows =
     (case w of None \<Rightarrow> rows | Some (start, stop) \<Rightarrow> take (nat (stop - start)) (drop (nat start) rows))"

definition list_store :: "'r list \<Rightarrow> 'r store" where
  "list_store rows =
     \<lparr>count_rows = (\<lambda>q. Inr (length (window (sliced q) rows))),
      all_rows = (\<lambda>q. Inr (window (sliced q) rows))\<rparr>"

definition empty_query :: query where
  "empty_query = \<lparr>criteria = [], joined = [], ordering = [], sliced = None\<rparr>"

text \<open>
  A class for the examples: its \<open>__dict__\<close> is cut down to the two columns the examples
  name, so the part of the parameter that speaks for other entries is never asked.
\<close>

definition example_table :: subscription_table where
  "example_table =
     \<lparr>class_dict = [(''status'', MappedColumn), (''description'', MappedColumn)],
      other_entry_raises = (\<lambda>name use. None)\<rparr>"

subsection \<open>The sort contract in the spec's words\<close>

text \<open>
  The spec: the sort tokens are processed in pairs; \<open>product\<close> and \<open>tag\<close> order by the
  joined product's \<open>name\<close> and \<open>tag\<close>, any other key by the primary record's field of
  that name; the direction is descending when the token matches \<open>DESC\<close> without regard
  to case (each of its four letters in either case), ascending otherwise. \<open>sortable\<close>
  are the pairs whose key is \<open>product\<close>, \<open>tag\<close> or a mapped column of the primary record.
\<close>

fun pairs_of :: "'a list \<Rightarrow> ('a \<times> 'a) list" where
  "pairs_of (a # b # rest) = (a, b) # pairs_of rest"
| "pairs_of rest = []"

definition spec_direction_is_desc :: "string \<Rightarrow> bool" where
  "spec_direction_is_desc direction =
     (length direction = 4
      \<and> direction ! 0 \<in> set ''dD'' \<and> direction ! 1 \<in> set ''eE''
      \<and> direction ! 2 \<in> set ''sS'' \<and> direction ! 3 \<in> set ''cC'')"

definition spec_sort_term :: "string \<times> string \<Rightarrow> order_term" where
  "spec_sort_term kd =
     (let col = (if fst kd = ''product'' then Column ProductTable ''name''
                 else if fst kd = ''tag'' then Column ProductTable ''tag''
                 else Column SubscriptionTable (fst kd))
      in if spec_direction_is_desc (snd kd) then Desc col else Asc col)"

definition sortable :: "subscription_table \<Rightarrow> string \<times> string \<Rightarrow> bool" where
  "sortable tbl kd =
     (fst kd = ''product'' \<or> fst kd = ''tag''
      \<or> map_of (class_dict tbl) (fst kd) = Some MappedColumn)"

section \<open>Properties of the path accessor\<close>

text \<open>
  Where the walk of \<open>update_in\<close> meets a missing key, it continues in dicts that are new
  in the store, and the final assignment goes to one of them: when the first segment is
  not a key of the root dict and more segments follow, \<open>update_in\<close> returns normally and
  every object that was in the store is as it was.
\<close>

lemma update_in_loop_from_fresh:
  assumes "n \<le> r" and "r < length h" and "h ! r = ODict []" and "xs \<noteq> []"
  shows "\<exists>h' r' d kvs. update_in_loop h prev (PRef r) xs = Inr (h', Some (PRef r'), d)
           \<and> take n h' = take n h \<and> n \<le> r' \<and> r' < length h' \<and> h' ! r' = ODict kvs"
  using assms
proof (induction xs arbitrary: h r prev)
  case Nil
  then show ?case by simp
next
  case (Cons x xs)
  let ?h1 = "h @ [ODict [(PStr x, PRef (Suc (length h)))], ODict []]"
  have notlist: "\<not> is_list h (PRef r)" using Cons.prems by (simp add: is_list_def)
  have copy: "py_dict h (PRef r) = Inr []" using Cons.prems by (simp add: py_dict_def)
  have step: "update_in_loop h prev (PRef r) (x # xs)
      = update_in_loop ?h1 (Some (PRef r)) (PRef (Suc (length h))) xs"
    using notlist copy by simp
  show ?case
  proof (cases "xs = []")
    case True
    have "take n ?h1 = take n h" "?h1 ! r = ODict []" "r < length ?h1"
      using Cons.prems by (simp_all add: nth_append)
    with step True Cons.prems(1) show ?thesis by auto
  next
    case False
    have fresh: "n \<le> Suc (length h)" "Suc (length h) < length ?h1"
        "?h1 ! Suc (length h) = ODict []"
      using Cons.prems by (simp_all add: nth_append)
    from Cons.IH [OF fresh False, of "Some (PRef r)"] obtain h' r' d kvs where
      ih: "update_in_loop ?h1 (Some (PRef r)) (PRef (Suc (length h))) xs
             = Inr (h', Some (PRef r'), d)"
        "take n h' = take n ?h1" "n \<le> r'" "r' < length h'" "h' ! r' = ODict kvs"
      by blast
    have "take n ?h1 = take n h" using Cons.prems by simp
    with step ih show ?thesis by auto
  qed
qed

lemma update_in_missing_key_leaves_store:
  assumes "a < length h" and "h ! a = ODict kvs" and "map_of kvs (PStr x) = None"
    and "py_split path sep = Inr (x # y # ys)"
  shows "\<exists>h'. update_in h (PRef a) path v sep = Inr h' \<and> take (length h) h' = h"
proof -
  let ?h1 = "h @ [ODict (kvs @ [(PStr x, PRef (Suc (length h)))]), ODict []]"
  have notlist: "\<not> is_list h (PRef a)" using assms(1,2) by (simp add: is_list_def)
  have copy: "py_dict h (PRef a) = Inr kvs" using assms(1,2) by (simp add: py_dict_def)
  have step: "update_in_loop h None (PRef a) (x # y # ys)
      = update_in_loop ?h1 (Some (PRef a)) (PRef (Suc (length h))) (y # ys)"
    using notlist copy assms(3) by simp
  have fresh: "length h \<le> Suc (length h)" "Suc (length h) < length ?h1"
      "?h1 ! Suc (length h) = ODict []"
    by (simp_all add: nth_append)
  from update_in_loop_from_fresh [OF fresh, of "y # ys" "Some (PRef a)"] obtain h' r' d kvs' where
    loop: "update_in_loop ?h1 (Some (PRef a)) (PRef (Suc (length h))) (y # ys)
             = Inr (h', Some (PRef r'), d)"
      "take (length h) h' = take (length h) ?h1" "length h \<le> r'" "r' < length h'"
      "h' ! r' = ODict kvs'"
    by auto
  have "take (length h) (h'[r' := ODict (AList.update (PStr (last (x # y # ys))) v kvs')]) = h"
    using loop(2,3) by simp
  with step loop assms(4) show ?thesis
    by (simp add: update_in_def setitem_str_def)
qed

text \<open>
  C1. Starting from the empty dict, \<open>update_in(tree, "a.b.c", 5)\<close> is claimed to insert
  the missing intermediate dicts into \<open>tree\<close>, so that \<open>get_in(tree, "a.b.c")\<close> returns 5.
  The code returns normally but stores the 5 into a fresh dict that \<open>tree\<close> does not reach:
  \<open>setdefault\<close> is applied to the copy \<open>dict(dct)\<close>, so the object of \<open>tree\<close> (address 0)
  is still empty afterwards and \<open>get_in\<close> on it raises \<open>TypeError\<close>.
\<close>

theorem update_in_empty_tree_unchanged:
  "update_in [ODict []] (PRef 0) ''a.b.c'' (PInt 5) ''.''
     = Inr [ODict [], ODict [(PStr ''a'', PRef 2)], ODict [], ODict [(PStr ''b'', PRef 4)],
            ODict [(PStr ''c'', PInt 5)], ODict [(PStr ''c'', PRef 6)], ODict []]
   \<and> get_in [ODict [], ODict [(PStr ''a'', PRef 2)], ODict [], ODict [(PStr ''b'', PRef 4)],
              ODict [(PStr ''c'', PInt 5)], ODict [(PStr ''c'', PRef 6)], ODict []]
         (PRef 0) ''a.b.c'' ''.'' = Inl TypeError"
  by (simp add: update_in_def get_in_def py_split_def py_dict_def isdigit_def isdigit_char_def
      is_list_def setitem_str_def dict_get_def)

text \<open>
  A path that is one all-digit segment, on a list, never yields a value: either the
  indexing in the loop fails, or the final \<open>prev[x]\<close> does.
\<close>

lemma get_in_list_segment_fails:
  assumes "is_list h (PRef a)" and "isdigit x" and "py_split path sep = Inr [x]"
  shows "\<exists>e. get_in h (PRef a) path sep = Inl e"
proof (cases "index_by_segment h (PRef a) x")
  case (Inl e)
  with assms show ?thesis by (simp add: get_in_def)
next
  case (Inr v)
  from assms(1) have "getitem_str h (PRef a) x = Inl TypeError"
    by (auto simp: is_list_def getitem_str_def split: pyobj.splits)
  with Inr assms show ?thesis by (simp add: get_in_def)
qed

text \<open>
  C2. \<open>get_in([10, 20, 30], "1")\<close> is claimed to return 20. The loop does index the list
  by \<open>int(x)\<close>, but the final \<open>prev[x]\<close> indexes the list by the string \<open>x\<close>, which is a
  \<open>TypeError\<close>. The out-of-range path \<open>"5"\<close> raises \<open>IndexError\<close> inside the loop.
\<close>

theorem get_in_list_index_type_error:
  "get_in [OList [PInt 10, PInt 20, PInt 30]] (PRef 0) ''1'' ''.'' = Inl TypeError
   \<and> get_in [OList [PInt 10, PInt 20, PInt 30]] (PRef 0) ''5'' ''.'' = Inl IndexError"
  by (simp add: get_in_def py_split_def isdigit_def isdigit_char_def is_list_def
      index_by_segment_def py_int_def int_space_def strip_prefix16_def is_digit_of_def
      digit_val_def digits_value_def list_getitem_def getitem_str_def)




section \<open>Properties of the path enumerator\<close>

lemma get_items_values_are_dicts:
  "list_all (\<lambda>(p, v). is_dict v) (get_dict_items d)"
  "list_all (\<lambda>(p, v). is_dict v) (get_list_items k i xs)"
  by (induction d and k i xs rule: get_dict_items_get_list_items.induct)
     (auto simp: is_dict_def list_all_iff)

text \<open>
  C4, as claimed: on \<open>{"a": {"b": 1}, "c": [{"d": 2}, 3]}\<close> the enumerator yields at
  least \<open>"a.b"\<close>, \<open>"a"\<close>, \<open>"c.0.d"\<close> and \<open>"c.0"\<close>. It does not yield the leaf path
  \<open>"a.b"\<close>.
\<close>

theorem product_block_paths_leaf_counterexample:
  "''a.b'' \<notin> set (product_block_paths
      [(''a'', TDict [(''b'', TInt 1)]), (''c'', TList [TDict [(''d'', TInt 2)], TInt 3])])"
  by (simp add: product_block_paths_def str_nat.simps digit_char_def)

text \<open>
  C4, amended. On that tree the enumerator yields exactly \<open>"a"\<close> and \<open>"c.0"\<close>: a path is
  emitted only for a value that is itself a mapping (every emitted value is a dict), so
  the leaf paths \<open>"a.b"\<close> and \<open>"c.0.d"\<close> do not appear. The order is depth-first with the
  paths below a container before the container's own path: when \<open>b\<close> and \<open>d\<close> hold
  mappings, the result is \<open>"a.b"\<close>, \<open>"a"\<close>, \<open>"c.0.d"\<close>, \<open>"c.0"\<close>.
\<close>

theorem product_block_paths_containers_only:
  "product_block_paths
      [(''a'', TDict [(''b'', TInt 1)]), (''c'', TList [TDict [(''d'', TInt 2)], TInt 3])]
     = [''a'', ''c.0'']
   \<and> product_block_paths
      [(''a'', TDict [(''b'', TDict [])]), (''c'', TList [TDict [(''d'', TDict [])], TInt 3])]
     = [''a.b'', ''a'', ''c.0.d'', ''c.0'']
   \<and> list_all (\<lambda>(p, v). is_dict v) (get_dict_items subscription)"
  by (simp add: product_block_paths_def str_nat.simps digit_char_def get_items_values_are_dicts)

section \<open>Properties of the text-query sanitizer\<close>

lemma read_token_raises_value_error: "read_token st token inp = Inl e \<Longrightarrow> e = ValueError"
  by (induction st token inp rule: read_token.induct) (auto split: if_splits)

lemma shlex_tokens_raises_value_error: "shlex_tokens st inp = Inl e \<Longrightarrow> e = ValueError"
proof (induction st inp rule: shlex_tokens.induct)
  case (1 st inp)
  show ?case
  proof (cases "read_token st [] inp")
    case (Inl e')
    with "1.prems" read_token_raises_value_error [OF Inl] show ?thesis
      by (simp add: shlex_tokens.simps [of st inp])
  next
    case (Inr r)
    obtain token st' inp' where r: "r = (token, st', inp')" by (cases r) auto
    have rt: "read_token st [] inp = Inr (token, st', inp')" using Inr r by simp
    show ?thesis
    proof (cases "token = []")
      case True
      with "1.prems" rt show ?thesis by (simp add: shlex_tokens.simps [of st inp])
    next
      case False
      with "1.prems" rt have "shlex_tokens st' inp' = Inl e"
        by (simp add: shlex_tokens.simps [of st inp] split: sum.splits)
      then show ?thesis by (rule "1.IH" [OF rt refl refl False])
    qed
  qed
qed

lemma process_text_query_result:
  "process_text_query q =
     (let q1 = (if odd (count_list q dquote) then q @ [dquote] else q)
      in Inr (case shlex_tokens InSpace q1 of
                Inl e \<Rightarrow> q1
              | Inr tokens \<Rightarrow> py_join '' '' (map quote_if_kv_pair tokens)))"
  by (auto simp: process_text_query_def Let_def odd_iff_mod_2_eq_one
      dest: shlex_tokens_raises_value_error split: sum.splits)

lemma process_text_query_returns: "\<exists>s. process_text_query q = Inr s"
  using process_text_query_result [of q] by (simp add: Let_def)

text \<open>
  C5, as claimed: on any tokenization error the original, unmodified input is returned.
  The input \<open>a" "b"\<close> has three quotes, so one is appended; the tokenizer still fails on
  the balanced string (a quote inside a word does not open a quoted span), and the string
  returned is the one with the appended quote, not the input.
\<close>

theorem process_text_query_modified_counterexample:
  "shlex_tokens InSpace (''a'' @ [dquote] @ '' '' @ [dquote] @ ''b'' @ [dquote] @ [dquote])
       = Inl ValueError
   \<and> process_text_query (''a'' @ [dquote] @ '' '' @ [dquote] @ ''b'' @ [dquote])
       = Inr (''a'' @ [dquote] @ '' '' @ [dquote] @ ''b'' @ [dquote] @ [dquote])
   \<and> process_text_query (''a'' @ [dquote] @ '' '' @ [dquote] @ ''b'' @ [dquote])
       \<noteq> Inr (''a'' @ [dquote] @ '' '' @ [dquote] @ ''b'' @ [dquote])"
  by code_simp

text \<open>
  C5, amended. For every input string the sanitizer returns a string (it never raises).
  One \<open>"\<close> is appended when the number of \<open>"\<close> in the input is odd. When tokenizing
  that balanced string succeeds, the result is the tokens joined by single spaces, each
  token containing \<open>:\<close> wrapped in double quotes; when it fails, the result is the
  balanced string: the input itself for an even count, the input with the appended
  quote for an odd count. \<open>status:active\<close> becomes \<open>"status:active"\<close> and
  \<open>hello world\<close> is returned unchanged.
\<close>

theorem process_text_query_never_raises:
  "(\<exists>s. process_text_query q = Inr s)
   \<and> process_text_query q =
       (let q1 = (if odd (count_list q dquote) then q @ [dquote] else q)
        in Inr (case shlex_tokens InSpace q1 of
                  Inl e \<Rightarrow> q1
                | Inr tokens \<Rightarrow> py_join '' '' (map quote_if_kv_pair tokens)))
   \<and> process_text_query ''status:active'' = Inr ([dquote] @ ''status:active'' @ [dquote])
   \<and> process_text_query ''hello world'' = Inr ''hello world''"
proof -
  have ex1: "process_text_query ''status:active'' = Inr ([dquote] @ ''status:active'' @ [dquote])"
    by code_simp
  have ex2: "process_text_query ''hello world'' = Inr ''hello world''"
    by code_simp
  from process_text_query_result [of q] have "\<exists>s. process_text_query q = Inr s"
    by (simp add: Let_def)
  with process_text_query_result [of q] ex1 ex2 show ?thesis by blast
qed

section \<open>Properties of the query builder\<close>

lemma chunked_2_simps:
  "chunked [] 2 = []"
  "chunked [a] 2 = [[a]]"
  "chunked (a # b # xs) 2 = [a, b] # chunked xs 2"
  by (simp_all add: chunked.simps [of "[]"] chunked.simps [of "[a]"] chunked.simps [of "a # b # xs"])

lemma chunked_2_append:
  "even (length pre) \<Longrightarrow> chunked (pre @ ys) 2 = chunked pre 2 @ chunked ys 2"
proof (induction pre rule: induct_list012)
  case 1
  then show ?case by (simp add: chunked_2_simps)
next
  case (2 x)
  then show ?case by simp
next
  case (3 x y zs)
  then show ?case by (simp add: chunked_2_simps)
qed

lemma filter_loop_append:
  "filter_loop tbl q (cs @ ds)
     = (case filter_loop tbl q cs of Inl e \<Rightarrow> Inl e | Inr q' \<Rightarrow> filter_loop tbl q' ds)"
  by (induction cs arbitrary: q) (simp_all split: sum.splits)

lemma sort_loop_append:
  "sort_loop tbl q (cs @ ds)
     = (case sort_loop tbl q cs of Inl e \<Rightarrow> Inl e | Inr q' \<Rightarrow> sort_loop tbl q' ds)"
  by (induction cs arbitrary: q) (simp_all split: sum.splits)

lemma filter_loop_dangling:
  "odd (length fs) \<Longrightarrow>
     filter_loop tbl q (chunked fs 2) = filter_loop tbl q (chunked (butlast fs) 2)"
proof (induction fs arbitrary: q rule: induct_list012)
  case 1
  then show ?case by simp
next
  case (2 x)
  then show ?case by (simp add: chunked_2_simps)
next
  case (3 x y zs)
  then have "zs \<noteq> []" and "odd (length zs)" by auto
  with 3 show ?case by (simp add: chunked_2_simps split: sum.splits)
qed

lemma UUID_raises_value_error: "UUID v = Inl e \<Longrightarrow> e = ValueError"
  by (auto simp: UUID_def Let_def split: if_splits option.splits)

lemma parse_range_raises_value_error: "parse_range r = Inl e \<Longrightarrow> e = ValueError"
  by (auto simp: parse_range_def int_of_item_def split: sum.splits range_item.splits option.splits if_splits)

lemma parse_range_ok:
  "parse_range [a, b] = Inr (s, e) \<longleftrightarrow> int_of_item a = Inr s \<and> int_of_item b = Inr e \<and> s < e"
  by (auto simp: parse_range_def split: sum.splits)

lemma endswith_suffix: "endswith s suf \<longleftrightarrow> suffix suf s"
proof
  assume "endswith s suf"
  then have "s = take (length s - length suf) s @ suf"
    by (metis append_take_drop_id endswith_def)
  then show "suffix suf s" by (metis suffixI)
next
  assume "suffix suf s"
  then obtain zs where "s = zs @ suf" by (auto simp: suffix_def)
  then show "endswith s suf" by (simp add: endswith_def)
qed

lemma endswith_append: "endswith (name @ suf) suf"
  by (simp add: endswith_def)

lemma not_endswith_other:
  assumes "\<not> endswith suf suf'" and "\<not> endswith suf' suf"
  shows "\<not> endswith (name @ suf) suf'"
proof
  assume "endswith (name @ suf) suf'"
  then have "suffix suf' (name @ suf)" by (simp add: endswith_suffix)
  moreover have "suffix suf (name @ suf)" by (simp add: suffix_def)
  ultimately have "suffix suf' suf \<or> suffix suf suf'" by (rule suffix_same_cases)
  with assms show False by (simp add: endswith_suffix)
qed

lemma compare_rule_key_error:
  "map_of (class_dict tbl) name = None \<Longrightarrow> compare_rule tbl q name op v = Inl (KeyError name)"
  by (simp add: compare_rule_def)

lemma filter_pair_suffix_key_error:
  assumes "suf \<in> set [''_gt'', ''_gte'', ''_lte'', ''_lt'', ''_ne'']"
    and "map_of (class_dict tbl) name = None"
  shows "filter_pair tbl q (name @ suf) v = Inl (KeyError name)"
proof -
  have gt: "\<not> endswith (name @ suf) ''_gt''" if "suf \<noteq> ''_gt''"
    using that assms(1) by (auto intro!: not_endswith_other simp: endswith_def)
  have gte: "\<not> endswith (name @ suf) ''_gte''" if "suf \<noteq> ''_gte''"
    using that assms(1) by (auto intro!: not_endswith_other simp: endswith_def)
  have lte: "\<not> endswith (name @ suf) ''_lte''" if "suf \<noteq> ''_lte''"
    using that assms(1) by (auto intro!: not_endswith_other simp: endswith_def)
  have lt: "\<not> endswith (name @ suf) ''_lt''" if "suf \<noteq> ''_lt''"
    using that assms(1) by (auto intro!: not_endswith_other simp: endswith_def)
  from assms(1) consider "suf = ''_gt''" | "suf = ''_gte''" | "suf = ''_lte''"
    | "suf = ''_lt''" | "suf = ''_ne''"
    by auto
  then show ?thesis
  proof cases
    case 1
    then show ?thesis
      using endswith_append [of name suf] assms(2)
      by (simp add: filter_pair_def compare_rule_key_error)
  next
    case 2
    then show ?thesis
      using endswith_append [of name suf] gt assms(2)
      by (simp add: filter_pair_def compare_rule_key_error)
  next
    case 3
    then show ?thesis
      using endswith_append [of name suf] gt gte assms(2)
      by (simp add: filter_pair_def compare_rule_key_error)
  next
    case 4
    then show ?thesis
      using endswith_append [of name suf] gt gte lte assms(2)
      by (simp add: filter_pair_def compare_rule_key_error)
  next
    case 5
    then show ?thesis
      using endswith_append [of name suf] gt gte lte lt assms(2)
      by (simp add: filter_pair_def compare_rule_key_error)
  qed
qed

lemma organisation_pair_rejected:
  "UUID v = Inl e \<Longrightarrow>
     filter_pair tbl q ''organisation'' v = Inl (HTTPError 400 organisation_msg)"
  using UUID_raises_value_error [of v e]
  by (simp add: filter_pair_def endswith_def raise_status_def)

lemma filter_loop_organisation:
  assumes "UUID v = Inl e" and "even (length pre)"
  shows "filter_loop tbl query (chunked (pre @ ''organisation'' # v # rest) 2)
           = (case filter_loop tbl query (chunked pre 2) of
                Inl err \<Rightarrow> Inl err
              | Inr q1 \<Rightarrow> Inl (HTTPError 400 organisation_msg))"
  using assms
  by (simp add: chunked_2_append chunked_2_simps filter_loop_append organisation_pair_rejected
      split: sum.splits)

text \<open>
  C6, as claimed: \<open>organisation\<close> is the only filter rule that aborts. The suffix rules
  abort as well: \<open>SubscriptionTable.__dict__[field[:-3]]\<close> is not guarded, so a suffixed
  field whose base name is not in \<open>__dict__\<close> raises \<open>KeyError\<close> and ends the operation.
\<close>

theorem suffix_rule_aborts_counterexample:
  "filter_pair example_table empty_query ''foo_gt'' ''1'' = Inl (KeyError ''foo'')
   \<and> query_with_filters (list_store ([] :: unit list)) example_table \<lparr>headers = Map.empty\<rparr>
         empty_query None None (Some [''foo_gt'', ''1'']) = Inl (KeyError ''foo'')"
  by (simp add: query_with_filters_def apply_filters_def chunked_2_simps filter_pair_def
      endswith_def compare_rule_def example_table_def)

text \<open>
  C6, amended. For a filter pair with field \<open>organisation\<close>, wherever it stands in the
  token list: when the value does not parse as a UUID, the rule fails with the client
  error (status 400) whose message contains \<open>must be a UUID\<close>; the whole operation then
  fails, whatever the store, the range and the sort tokens are, and it fails with that
  client error when the pairs before it compile (a pair before it that aborts does so
  first). When the value parses, the rule adds the predicate that the primary record's
  \<open>customer_id\<close> equals that UUID. It is not the only filter rule that aborts: each of
  the five suffix rules fails with a key-lookup error when the field name without its
  suffix is not in \<open>SubscriptionTable.__dict__\<close>.
\<close>

theorem organisation_rule:
  "(UUID v = Inl e \<longrightarrow>
      filter_pair tbl q ''organisation'' v = Inl (HTTPError 400 organisation_msg)
      \<and> (even (length pre) \<longrightarrow>
           (\<exists>err. query_with_filters db tbl resp query range' sort'
                    (Some (pre @ ''organisation'' # v # rest)) = Inl err))
      \<and> (even (length pre) \<and> apply_filters tbl query (Some pre) = Inr q1 \<longrightarrow>
           query_with_filters db tbl resp query range' sort'
             (Some (pre @ ''organisation'' # v # rest)) = Inl (HTTPError 400 organisation_msg)))
   \<and> (UUID v = Inr u \<longrightarrow>
      filter_pair tbl q ''organisation'' v
        = Inr (q_filter q (Col_eq_uuid (Column SubscriptionTable ''customer_id'') u)))
   \<and> (suf \<in> set [''_gt'', ''_gte'', ''_lte'', ''_lt'', ''_ne'']
        \<and> map_of (class_dict tbl) name = None \<longrightarrow>
      filter_pair tbl q (name @ suf) v' = Inl (KeyError name))
   \<and> organisation_msg
        = ''Not a valid customer_id, '' @ ''must be a UUID'' @ '': '' @ [CHR 0x27] @ ''{value}'' @ [CHR 0x27]"
proof (intro conjI impI)
  assume bad: "UUID v = Inl e"
  show "filter_pair tbl q ''organisation'' v = Inl (HTTPError 400 organisation_msg)"
    using bad by (rule organisation_pair_rejected)
  {
    assume ev: "even (length pre)"
    show "\<exists>err. query_with_filters db tbl resp query range' sort'
                    (Some (pre @ ''organisation'' # v # rest)) = Inl err"
      using filter_loop_organisation [OF bad ev, of tbl query rest]
      by (simp add: query_with_filters_def apply_filters_def split: sum.splits)
  }
  {
    assume "even (length pre) \<and> apply_filters tbl query (Some pre) = Inr q1"
    then have ev: "even (length pre)" and pre: "filter_loop tbl query (chunked pre 2) = Inr q1"
      by (simp_all add: apply_filters_def)
    show "query_with_filters db tbl resp query range' sort'
             (Some (pre @ ''organisation'' # v # rest)) = Inl (HTTPError 400 organisation_msg)"
      using filter_loop_organisation [OF bad ev, of tbl query rest] pre
      by (simp add: query_with_filters_def apply_filters_def)
  }
next
  assume "UUID v = Inr u"
  then show "filter_pair tbl q ''organisation'' v
        = Inr (q_filter q (Col_eq_uuid (Column SubscriptionTable ''customer_id'') u))"
    by (simp add: filter_pair_def endswith_def)
next
  assume "suf \<in> set [''_gt'', ''_gte'', ''_lte'', ''_lt'', ''_ne'']
        \<and> map_of (class_dict tbl) name = None"
  then show "filter_pair tbl q (name @ suf) v' = Inl (KeyError name)"
    using filter_pair_suffix_key_error by blast
next
  show "organisation_msg
        = ''Not a valid customer_id, '' @ ''must be a UUID'' @ '': '' @ [CHR 0x27] @ ''{value}'' @ [CHR 0x27]"
    by (simp add: organisation_msg_def)
qed

theorem organisation_rule_witness:
  "filter_pair example_table empty_query ''organisation'' ''not-a-uuid''
     = Inl (HTTPError 400 organisation_msg)
   \<and> query_with_filters (list_store ([] :: unit list)) example_table \<lparr>headers = Map.empty\<rparr>
        empty_query None None
        (Some [''insync'', ''yes'', ''organisation'', ''not-a-uuid'', ''status'', ''active''])
     = Inl (HTTPError 400 organisation_msg)
   \<and> filter_pair example_table empty_query ''organisation'' ''12345678-1234-5678-1234-567812345678''
     = Inr (q_filter empty_query
              (Col_eq_uuid (Column SubscriptionTable ''customer_id'')
                 24197857161011715162171839636988778104))
   \<and> filter_pair example_table empty_query ''foo_gt'' ''1'' = Inl (KeyError ''foo'')"
proof -
  have bad: "UUID ''not-a-uuid'' = Inl ValueError" by code_simp
  have good: "UUID ''12345678-1234-5678-1234-567812345678''
      = Inr 24197857161011715162171839636988778104" by code_simp
  have pre: "even (length [''insync'', ''yes''])
      \<and> apply_filters example_table empty_query (Some [''insync'', ''yes''])
          = Inr (q_filter empty_query (Col_is (Column SubscriptionTable ''insync'') True))"
    by code_simp
  have key: "''_gt'' \<in> set [''_gt'', ''_gte'', ''_lte'', ''_lt'', ''_ne'']
      \<and> map_of (class_dict example_table) ''foo'' = None"
    by (simp add: example_table_def)
  show ?thesis
    using bad good pre key
      organisation_rule [of "''not-a-uuid''" ValueError example_table empty_query
        "[''insync'', ''yes'']" "list_store ([] :: unit list)" "\<lparr>headers = Map.empty\<rparr>"
        empty_query None None "[''status'', ''active'']"
        "q_filter empty_query (Col_is (Column SubscriptionTable ''insync'') True)"
        "24197857161011715162171839636988778104" "''_gt''" "''foo''" "''1''"]
      organisation_rule [of "''12345678-1234-5678-1234-567812345678''" ValueError example_table
        empty_query "[]" "list_store ([] :: unit list)" "\<lparr>headers = Map.empty\<rparr>"
        empty_query None None "[]" empty_query
        "24197857161011715162171839636988778104" "''_gt''" "''foo''" "''1''"]
    by simp
qed

text \<open>
  C7. When the filter and sort stages have compiled, a two-element range \<open>[a, b]\<close> is
  parsed with \<open>int\<close>; when an element does not parse, or start \<open>\<ge>\<close> end, the call fails
  with the client error \<open>Invalid range parameters\<close>. Otherwise the total is the count of
  the filtered, sorted and not yet sliced query, the rows are those of the query sliced to
  \<open>[start, end)\<close>, and the \<open>Content-Range\<close> header is
  \<open>subscriptions {start}-{end}/{total}\<close>. On a store of 25 matching records, \<open>[0, 10]\<close>
  gives 10 records and \<open>subscriptions 0-10/25\<close>; \<open>[5, 5]\<close> and \<open>[10, 3]\<close> fail.
\<close>

theorem range_contract:
  assumes "apply_filters tbl query filters = Inr q1"
    and "apply_sort tbl q1 sort' = Inr q2"
  shows "query_with_filters db tbl resp query (Some [a, b]) sort' filters =
           (case parse_range [a, b] of
              Inl err \<Rightarrow> Inl (HTTPError 400 ''Invalid range parameters'')
            | Inr (range_start, range_end) \<Rightarrow>
                (case count_rows db q2 of
                   Inl err \<Rightarrow> Inl err
                 | Inr total_count \<Rightarrow>
                     (case all_rows db (q_slice q2 range_start range_end) of
                        Inl err \<Rightarrow> Inl err
                      | Inr rows \<Rightarrow>
                          Inr (rows,
                               resp\<lparr>headers := (headers resp)(''Content-Range'' \<mapsto>
                                 ''subscriptions '' @ str_int range_start @ ''-''
                                 @ str_int range_end @ ''/'' @ str_nat total_count)\<rparr>))))
       \<and> (parse_range [a, b] = Inr (s, e)
            \<longleftrightarrow> int_of_item a = Inr s \<and> int_of_item b = Inr e \<and> s < e)"
proof
  show "query_with_filters db tbl resp query (Some [a, b]) sort' filters =
           (case parse_range [a, b] of
              Inl err \<Rightarrow> Inl (HTTPError 400 ''Invalid range parameters'')
            | Inr (range_start, range_end) \<Rightarrow>
                (case count_rows db q2 of
                   Inl err \<Rightarrow> Inl err
                 | Inr total_count \<Rightarrow>
                     (case all_rows db (q_slice q2 range_start range_end) of
                        Inl err \<Rightarrow> Inl err
                      | Inr rows \<Rightarrow>
                          Inr (rows,
                               resp\<lparr>headers := (headers resp)(''Content-Range'' \<mapsto>
                                 ''subscriptions '' @ str_int range_start @ ''-''
                                 @ str_int range_end @ ''/'' @ str_nat total_count)\<rparr>))))"
  proof (cases "parse_range [a, b]")
    case (Inl err)
    with parse_range_raises_value_error [OF Inl] assms show ?thesis
      by (simp add: query_with_filters_def apply_range_def raise_status_def)
  next
    case (Inr p)
    obtain range_start range_end where p: "p = (range_start, range_end)" by (cases p) auto
    with Inr assms show ?thesis
      by (simp add: query_with_filters_def apply_range_def content_range_def split: sum.splits)
  qed
  show "parse_range [a, b] = Inr (s, e)
            \<longleftrightarrow> int_of_item a = Inr s \<and> int_of_item b = Inr e \<and> s < e"
    by (rule parse_range_ok)
qed

theorem range_contract_witness:
  "query_with_filters (list_store (replicate 25 ())) example_table \<lparr>headers = Map.empty\<rparr>
       empty_query (Some [RInt 0, RInt 10]) None None
     = Inr (replicate 10 (), \<lparr>headers = [''Content-Range'' \<mapsto> ''subscriptions 0-10/25'']\<rparr>)
   \<and> query_with_filters (list_store (replicate 25 ())) example_table \<lparr>headers = Map.empty\<rparr>
       empty_query (Some [RInt 5, RInt 5]) None None
     = Inl (HTTPError 400 ''Invalid range parameters'')
   \<and> query_with_filters (list_store (replicate 25 ())) example_table \<lparr>headers = Map.empty\<rparr>
       empty_query (Some [RInt 10, RInt 3]) None None
     = Inl (HTTPError 400 ''Invalid range parameters'')
   \<and> query_with_filters (list_store (replicate 25 ())) example_table \<lparr>headers = Map.empty\<rparr>
       empty_query (Some [RStr ''ten'', RInt 20]) None None
     = Inl (HTTPError 400 ''Invalid range parameters'')"
proof -
  have f: "apply_filters example_table empty_query None = Inr empty_query"
    by (simp add: apply_filters_def)
  have s: "apply_sort example_table empty_query None = Inr empty_query"
    by (simp add: apply_sort_def)
  have r1: "parse_range [RInt 0, RInt 10] = Inr (0, 10)"
    by (simp add: parse_range_def int_of_item_def)
  have r2: "parse_range [RInt 5, RInt 5] = Inl ValueError"
    by (simp add: parse_range_def int_of_item_def)
  have r3: "parse_range [RInt 10, RInt 3] = Inl ValueError"
    by (simp add: parse_range_def int_of_item_def)
  have r4: "parse_range [RStr ''ten'', RInt 20] = Inl ValueError"
    by code_simp
  have n: "str_nat 25 = ''25''" "str_int 0 = ''0''" "str_int 10 = ''10''"
    by (simp_all add: str_int_def str_nat.simps digit_char_def)
  show ?thesis
    using range_contract [OF f s, of "list_store (replicate 25 ())" "\<lparr>headers = Map.empty\<rparr>"
        "RInt 0" "RInt 10" 0 10]
      range_contract [OF f s, of "list_store (replicate 25 ())" "\<lparr>headers = Map.empty\<rparr>"
        "RInt 5" "RInt 5" 0 10]
      range_contract [OF f s, of "list_store (replicate 25 ())" "\<lparr>headers = Map.empty\<rparr>"
        "RInt 10" "RInt 3" 0 10]
      range_contract [OF f s, of "list_store (replicate 25 ())" "\<lparr>headers = Map.empty\<rparr>"
        "RStr ''ten''" "RInt 20" 0 10]
      r1 r2 r3 r4 n
    by (simp add: list_store_def window_def q_slice_def empty_query_def)
qed

text \<open>
  C8. For a filter-token list of odd length, the compiled query, and so the result of the
  whole call, is the one of the same list without its last element.
\<close>

theorem dangling_filter_token_ignored:
  assumes "odd (length fs)"
  shows "apply_filters tbl query (Some fs) = apply_filters tbl query (Some (butlast fs))
       \<and> query_with_filters db tbl resp query range' sort' (Some fs)
           = query_with_filters db tbl resp query range' sort' (Some (butlast fs))"
  using filter_loop_dangling [OF assms] by (simp add: apply_filters_def query_with_filters_def)

theorem dangling_filter_token_ignored_witness:
  "apply_filters example_table empty_query (Some [''insync'', ''yes'', ''status''])
     = apply_filters example_table empty_query (Some [''insync'', ''yes''])
   \<and> apply_filters example_table empty_query (Some [''insync'', ''yes''])
     = Inr (q_filter empty_query (Col_is (Column SubscriptionTable ''insync'') True))"
proof -
  have o: "odd (length [''insync'', ''yes'', ''status''])" by simp
  have v: "apply_filters example_table empty_query (Some [''insync'', ''yes''])
     = Inr (q_filter empty_query (Col_is (Column SubscriptionTable ''insync'') True))"
    by code_simp
  show ?thesis
    using dangling_filter_token_ignored [OF o, of "example_table" empty_query
        "list_store ([] :: unit list)" "\<lparr>headers = Map.empty\<rparr>" None None] v
    by simp
qed

lemma distinct_lower_letters: "distinct lower_letters"
  by (simp add: lower_letters_def)

lemma length_letters: "length lower_letters = length upper_letters"
  by (simp add: lower_letters_def upper_letters_def)

lemma upper_char_single:
  "upper_char c = [x] \<longleftrightarrow>
     c \<noteq> CHR 0xDF \<and> ((c, x) \<in> set (zip lower_letters upper_letters)
                       \<or> (c = x \<and> x \<notin> set lower_letters))"
proof -
  have m: "map fst (zip lower_letters upper_letters) = lower_letters"
    using length_letters by simp
  have d: "distinct (map fst (zip lower_letters upper_letters))"
    using distinct_lower_letters m by simp
  have n: "map_of (zip lower_letters upper_letters) c = None \<longleftrightarrow> c \<notin> set lower_letters"
    using m by (metis map_of_eq_None_iff set_map)
  show ?thesis
    using map_of_eq_Some_iff [OF d, of c] n
    by (cases "map_of (zip lower_letters upper_letters) c") (auto simp: upper_char_def)
qed

lemma desc_letter_tables:
  "(c, CHR ''D'') \<in> set (zip lower_letters upper_letters) \<longleftrightarrow> c = CHR ''d''"
  "(c, CHR ''E'') \<in> set (zip lower_letters upper_letters) \<longleftrightarrow> c = CHR ''e''"
  "(c, CHR ''S'') \<in> set (zip lower_letters upper_letters) \<longleftrightarrow> c = CHR ''s''"
  "(c, CHR ''C'') \<in> set (zip lower_letters upper_letters) \<longleftrightarrow> c = CHR ''c''"
  by (simp_all add: lower_letters_def upper_letters_def)

lemma desc_letter_kinds:
  "CHR ''D'' \<notin> set lower_letters" "CHR ''E'' \<notin> set lower_letters"
  "CHR ''S'' \<notin> set lower_letters" "CHR ''C'' \<notin> set lower_letters"
  by (simp_all add: lower_letters_def)

lemma upper_char_desc_letters:
  "upper_char c = ''D'' \<longleftrightarrow> c = CHR ''d'' \<or> c = CHR ''D''"
  "upper_char c = ''E'' \<longleftrightarrow> c = CHR ''e'' \<or> c = CHR ''E''"
  "upper_char c = ''S'' \<longleftrightarrow> c = CHR ''s'' \<or> c = CHR ''S''"
  "upper_char c = ''C'' \<longleftrightarrow> c = CHR ''c'' \<or> c = CHR ''C''"
  by (auto simp only: upper_char_single desc_letter_tables desc_letter_kinds)

lemma upper_char_shape: "upper_char c = ''SS'' \<or> (\<exists>y. upper_char c = [y])"
  by (simp add: upper_char_def split: option.splits)

lemma peel_upper:
  assumes "concat (map upper_char d) = x # r" and "x \<noteq> CHR ''S'' \<or> \<not> prefix ''S'' r"
  shows "\<exists>c d'. d = c # d' \<and> upper_char c = [x] \<and> concat (map upper_char d') = r"
proof (cases d)
  case Nil
  with assms(1) show ?thesis by simp
next
  case (Cons c d')
  from upper_char_shape [of c] show ?thesis
  proof
    assume "upper_char c = ''SS''"
    with assms Cons show ?thesis by auto
  next
    assume "\<exists>y. upper_char c = [y]"
    then obtain y where "upper_char c = [y]" ..
    with assms(1) Cons show ?thesis by simp
  qed
qed

lemma concat_upper_empty: "concat (map upper_char d) = [] \<Longrightarrow> d = []"
proof (cases d)
  case Nil
  then show ?thesis by simp
next
  case (Cons c d')
  assume "concat (map upper_char d) = []"
  with Cons have "upper_char c = []" by simp
  with upper_char_shape [of c] show ?thesis by auto
qed

lemma py_upper_is_desc: "py_upper d = ''DESC'' \<longleftrightarrow> spec_direction_is_desc d"
proof
  assume "py_upper d = ''DESC''"
  then have u: "concat (map upper_char d) = ''DESC''" by (simp add: py_upper_def)
  from peel_upper [OF u] obtain c1 d1 where
    1: "d = c1 # d1" "upper_char c1 = ''D''" "concat (map upper_char d1) = ''ESC''" by auto
  from peel_upper [OF 1(3)] obtain c2 d2 where
    2: "d1 = c2 # d2" "upper_char c2 = ''E''" "concat (map upper_char d2) = ''SC''" by auto
  from peel_upper [OF 2(3)] obtain c3 d3 where
    3: "d2 = c3 # d3" "upper_char c3 = ''S''" "concat (map upper_char d3) = ''C''" by auto
  from peel_upper [OF 3(3)] obtain c4 d4 where
    4: "d3 = c4 # d4" "upper_char c4 = ''C''" "concat (map upper_char d4) = []" by auto
  from 4(3) have "d4 = []" by (rule concat_upper_empty)
  with 1 2 3 4 have "d = [c1, c2, c3, c4]" by simp
  with 1(2) 2(2) 3(2) 4(2) show "spec_direction_is_desc d"
    by (auto simp: spec_direction_is_desc_def upper_char_desc_letters)
next
  assume s: "spec_direction_is_desc d"
  then have "length d = 4" by (simp add: spec_direction_is_desc_def)
  then obtain c1 c2 c3 c4 where d: "d = [c1, c2, c3, c4]"
    by (auto simp: numeral_eq_Suc length_Suc_conv)
  with s have "upper_char c1 = ''D''" "upper_char c2 = ''E''"
    "upper_char c3 = ''S''" "upper_char c4 = ''C''"
    by (auto simp: spec_direction_is_desc_def upper_char_desc_letters)
  with d show "py_upper d = ''DESC''" by (simp add: py_upper_def)
qed

lemma sort_pair_spec:
  "sortable tbl (key, direction) \<Longrightarrow>
     sort_pair tbl q key direction = Inr (q_order_by q (spec_sort_term (key, direction)))"
  by (auto simp: sortable_def sort_pair_def order_by_entry_def spec_sort_term_def Let_def
      py_upper_is_desc)

lemma sort_pair_key_error:
  "key \<notin> set [''product'', ''tag''] \<Longrightarrow> map_of (class_dict tbl) key = None \<Longrightarrow>
     sort_pair tbl q key direction = Inl (KeyError key)"
  by (simp add: sort_pair_def order_by_entry_def)

lemma q_order_by_append:
  "q_order_by q t\<lparr>ordering := ordering (q_order_by q t) @ ts\<rparr> = q\<lparr>ordering := ordering q @ t # ts\<rparr>"
  by (simp add: q_order_by_def)

lemma sort_loop_spec:
  "list_all (sortable tbl) (pairs_of s) \<Longrightarrow>
     sort_loop tbl q (chunked s 2)
       = Inr (q\<lparr>ordering := ordering q @ map spec_sort_term (pairs_of s)\<rparr>)"
proof (induction s arbitrary: q rule: induct_list012)
  case 1
  then show ?case by (simp add: chunked_2_simps)
next
  case (2 x)
  then show ?case by (simp add: chunked_2_simps)
next
  case (3 x y zs)
  then show ?case
    by (simp add: chunked_2_simps sort_pair_spec q_order_by_append)
qed

text \<open>
  C9, as claimed: for any key other than \<open>product\<close> and \<open>tag\<close> the sort orders by the
  primary record's field of that name. For a key that is not in
  \<open>SubscriptionTable.__dict__\<close> there is no ordering: the lookup raises \<open>KeyError\<close> and
  the call fails.
\<close>

theorem unknown_sort_key_counterexample:
  "apply_sort example_table empty_query (Some [''foo'', ''asc'']) = Inl (KeyError ''foo'')
   \<and> query_with_filters (list_store ([] :: unit list)) example_table \<lparr>headers = Map.empty\<rparr>
         empty_query None (Some [''foo'', ''asc'']) None = Inl (KeyError ''foo'')"
  by (simp add: query_with_filters_def apply_filters_def apply_sort_def chunked_2_simps
      sort_pair_def order_by_entry_def example_table_def py_upper_def upper_char_def
      lower_letters_def upper_letters_def)

text \<open>
  C9, amended. The sort tokens are used only when there are at least two; they are taken
  in pairs, in order, each pair appending one \<open>ORDER BY\<close> term after those already there,
  so the first pair is the primary key. \<open>product\<close> and \<open>tag\<close> order by the joined
  product's \<open>name\<close> and \<open>tag\<close>; any other key that is a mapped column of the primary
  record orders by that column. After pairs of that kind, a key other than \<open>product\<close> and
  \<open>tag\<close> that is not in \<open>SubscriptionTable.__dict__\<close> makes the sort fail with a
  key-lookup error. The term is descending exactly when \<open>item[1].upper() == "DESC"\<close>,
  which for a token of code points below 256 holds exactly when the token is \<open>DESC\<close> up
  to the case of its four letters, and ascending otherwise.
  \<open>["product", "desc", "status", "asc"]\<close> orders by the product name descending, then
  by status ascending.
\<close>

theorem sort_contract:
  assumes "list_all (sortable tbl) (pairs_of s)"
  shows "apply_sort tbl q (Some s)
           = Inr (if length s \<ge> 2
                  then q\<lparr>ordering := ordering q @ map spec_sort_term (pairs_of s)\<rparr>
                  else q)
       \<and> apply_sort tbl q None = Inr q
       \<and> (even (length s) \<and> key \<notin> set [''product'', ''tag'']
            \<and> map_of (class_dict tbl) key = None \<longrightarrow>
          apply_sort tbl q (Some (s @ key # d # rest)) = Inl (KeyError key))
       \<and> (py_upper direction = ''DESC'' \<longleftrightarrow> spec_direction_is_desc direction)"
proof (intro conjI impI)
  show "apply_sort tbl q (Some s)
           = Inr (if length s \<ge> 2
                  then q\<lparr>ordering := ordering q @ map spec_sort_term (pairs_of s)\<rparr>
                  else q)"
    using assms by (simp add: apply_sort_def sort_loop_spec)
  show "apply_sort tbl q None = Inr q"
    by (simp add: apply_sort_def)
  show "py_upper direction = ''DESC'' \<longleftrightarrow> spec_direction_is_desc direction"
    by (rule py_upper_is_desc)
  assume "even (length s) \<and> key \<notin> set [''product'', ''tag'']
            \<and> map_of (class_dict tbl) key = None"
  then have ev: "even (length s)" and k: "key \<notin> set [''product'', ''tag'']"
    and absent: "map_of (class_dict tbl) key = None"
    by simp_all
  have "sort_loop tbl q (chunked (s @ key # d # rest) 2) = Inl (KeyError key)"
    using ev sort_loop_spec [OF assms, of q] sort_pair_key_error [OF k absent]
    by (simp add: chunked_2_append chunked_2_simps sort_loop_append)
  then show "apply_sort tbl q (Some (s @ key # d # rest)) = Inl (KeyError key)"
    by (simp add: apply_sort_def)
qed

theorem sort_contract_witness:
  "apply_sort example_table empty_query (Some [''product'', ''desc'', ''status'', ''asc''])
     = Inr (empty_query\<lparr>ordering :=
              [Desc (Column ProductTable ''name''), Asc (Column SubscriptionTable ''status'')]\<rparr>)
   \<and> apply_sort example_table empty_query (Some [''tag'', ''DeSc'', ''status''])
     = Inr (empty_query\<lparr>ordering := [Desc (Column ProductTable ''tag'')]\<rparr>)
   \<and> apply_sort example_table empty_query (Some [''status'']) = Inr empty_query
   \<and> apply_sort example_table empty_query (Some [''product'', ''desc'', ''foo'', ''asc''])
     = Inl (KeyError ''foo'')"
proof -
  have a1: "list_all (sortable example_table)
      (pairs_of [''product'', ''desc'', ''status'', ''asc''])"
    by (simp add: sortable_def example_table_def)
  have a2: "list_all (sortable example_table) (pairs_of [''tag'', ''DeSc'', ''status''])"
    by (simp add: sortable_def)
  have a3: "list_all (sortable example_table) (pairs_of [''status''])"
    by simp
  have a4: "list_all (sortable example_table) (pairs_of [''product'', ''desc''])"
    by (simp add: sortable_def)
  have k: "even (length [''product'', ''desc'']) \<and> ''foo'' \<notin> set [''product'', ''tag'']
      \<and> map_of (class_dict example_table) ''foo'' = None"
    by (simp add: example_table_def)
  have t: "spec_sort_term (''product'', ''desc'') = Desc (Column ProductTable ''name'')"
    "spec_sort_term (''status'', ''asc'') = Asc (Column SubscriptionTable ''status'')"
    "spec_sort_term (''tag'', ''DeSc'') = Desc (Column ProductTable ''tag'')"
    by code_simp+
  show ?thesis
    using sort_contract [OF a1, of empty_query "''foo''" "''asc''" "[]" "''desc''"]
      sort_contract [OF a2, of empty_query "''foo''" "''asc''" "[]" "''desc''"]
      sort_contract [OF a3, of empty_query "''foo''" "''asc''" "[]" "''desc''"]
      sort_contract [OF a4, of empty_query "''foo''" "''asc''" "[]" "''desc''"] t k
    by (simp add: empty_query_def)
qed

text \<open>
  C10. A range list whose length is not 2 is treated as no range: the range stage returns
  the query and the response as they are (no validation, no error, no header, no slice),
  and the call returns what it returns without a range.
\<close>

theorem range_of_other_length_ignored:
  assumes "length r \<noteq> 2"
  shows "apply_range db resp q (Some r) = Inr (q, resp)
       \<and> query_with_filters db tbl resp query (Some r) sort' filters
           = query_with_filters db tbl resp query None sort' filters"
proof -
  have skip: "apply_range db resp q' (Some r) = Inr (q', resp)" for q'
    using assms by (simp add: apply_range_def)
  then show ?thesis
    by (simp add: query_with_filters_def apply_range_def split: sum.splits)
qed

theorem range_of_other_length_ignored_witness:
  "query_with_filters (list_store (replicate 25 ())) example_table \<lparr>headers = Map.empty\<rparr>
       empty_query (Some [RInt 7]) None None
     = Inr (replicate 25 (), \<lparr>headers = Map.empty\<rparr>)
   \<and> query_with_filters (list_store (replicate 25 ())) example_table \<lparr>headers = Map.empty\<rparr>
       empty_query (Some [RInt 9, RInt 3, RStr ''x'']) None None
     = Inr (replicate 25 (), \<lparr>headers = Map.empty\<rparr>)"
proof -
  have l1: "length [RInt 7] \<noteq> 2" by simp
  have l3: "length [RInt 9, RInt 3, RStr ''x''] \<noteq> 2" by simp
  have none: "query_with_filters (list_store (replicate 25 ())) example_table \<lparr>headers = Map.empty\<rparr>
       empty_query None None None = Inr (replicate 25 (), \<lparr>headers = Map.empty\<rparr>)"
    by (simp add: query_with_filters_def apply_filters_def apply_sort_def apply_range_def
        list_store_def window_def empty_query_def)
  show ?thesis
    using range_of_other_length_ignored [OF l1, of "list_store (replicate 25 ())"
        "\<lparr>headers = Map.empty\<rparr>" empty_query "example_table" empty_query None None]
      range_of_other_length_ignored [OF l3, of "list_store (replicate 25 ())"
        "\<lparr>headers = Map.empty\<rparr>" empty_query "example_table" empty_query None None]
      none
    by simp
qed

end
